theory Spec2Isabelle
  imports Main
begin

section \<open>Python string primitives used by the shell\<close>

text \<open>
  Strings are byte strings (\<^typ>\<open>string\<close>); text outside ASCII is its UTF-8 encoding.
  The whitespace of \<^verbatim>\<open>str.strip()\<close> and \<^verbatim>\<open>str.split()\<close> is the ASCII part of
  \<^verbatim>\<open>str.isspace\<close>: TAB, LF, VT, FF, CR, FS, GS, RS, US and space.
\<close>

definition bslash :: char where
  "bslash = CHR 0x5C"

definition nl :: char where
  "nl = CHR 0x0A"

definition is_space :: "char \<Rightarrow> bool" where
  "is_space c \<longleftrightarrow> c \<in> set [CHR 0x09, CHR 0x0A, CHR 0x0B, CHR 0x0C, CHR 0x0D,
                              CHR 0x1C, CHR 0x1D, CHR 0x1E, CHR 0x1F, CHR 0x20]"

text \<open>\<^verbatim>\<open>s.strip()\<close>\<close>

definition strip :: "string \<Rightarrow> string" where
  "strip s = rev (dropWhile is_space (rev (dropWhile is_space s)))"

text \<open>\<^verbatim>\<open>s.startswith(p)\<close>\<close>

definition startswith :: "string \<Rightarrow> string \<Rightarrow> bool" where
  "startswith s p \<longleftrightarrow> take (length p) s = p"

text \<open>\<^verbatim>\<open>sub in s\<close>\<close>

fun contains :: "string \<Rightarrow> string \<Rightarrow> bool" where
  "contains sub [] \<longleftrightarrow> sub = []"
| "contains sub (c # cs) \<longleftrightarrow> startswith (c # cs) sub \<or> contains sub cs"

text \<open>\<^verbatim>\<open>s.replace(a, b)\<close> for single characters \<open>a\<close> and \<open>b\<close>\<close>

definition replace_char :: "char \<Rightarrow> char \<Rightarrow> string \<Rightarrow> string" where
  "replace_char a b s = map (\<lambda>c. if c = a then b else c) s"

text \<open>\<^verbatim>\<open>s.split()\<close>: the maximal runs of non-whitespace characters.\<close>

fun split_ws_from :: "string \<Rightarrow> string \<Rightarrow> string list" where
  "split_ws_from acc [] = (if acc = [] then [] else [rev acc])"
| "split_ws_from acc (c # cs) =
     (if is_space c then (if acc = [] then split_ws_from [] cs else rev acc # split_ws_from [] cs)
      else split_ws_from (c # acc) cs)"

definition split_ws :: "string \<Rightarrow> string list" where
  "split_ws s = split_ws_from [] s"

text \<open>
  \<^verbatim>\<open>s.split(None, 1)\<close>: the first word, and what follows the whitespace after it
  when that is not empty.
\<close>

definition split_first :: "string \<Rightarrow> string list" where
  "split_first s =
     (let t = dropWhile is_space s;
          w = takeWhile (\<lambda>c. \<not> is_space c) t;
          r = dropWhile is_space (dropWhile (\<lambda>c. \<not> is_space c) t)
      in if w = [] then [] else if r = [] then [w] else [w, r])"

text \<open>
  \<^verbatim>\<open>s.split(sep)\<close> for a non-empty separator: the occurrences of \<open>sep\<close> are found
  from the left without overlap. (Python raises on an empty separator; the shell never
  passes one, and the model then returns the whole string.)
\<close>

fun split_from :: "string \<Rightarrow> string \<Rightarrow> string \<Rightarrow> string list" where
  "split_from sep acc [] = [rev acc]"
| "split_from sep acc (c # cs) =
     (if sep \<noteq> [] \<and> startswith (c # cs) sep
      then rev acc # split_from sep [] (drop (length sep) (c # cs))
      else split_from sep (c # acc) cs)"

definition split_sep :: "string \<Rightarrow> string \<Rightarrow> string list" where
  "split_sep sep s = split_from sep [] s"

text \<open>\<^verbatim>\<open>sep.join(xs)\<close>\<close>

fun join_with :: "string \<Rightarrow> string list \<Rightarrow> string" where
  "join_with sep [] = []"
| "join_with sep [x] = x"
| "join_with sep (x # y # ys) = x @ sep @ join_with sep (y # ys)"

text \<open>The ASCII letters, and \<^verbatim>\<open>upper()\<close>/\<^verbatim>\<open>lower()\<close> on them.\<close>

definition lowers :: string where
  "lowers = ''abcdefghijklmnopqrstuvwxyz''"

definition uppers :: string where
  "uppers = ''ABCDEFGHIJKLMNOPQRSTUVWXYZ''"

definition is_letter :: "char \<Rightarrow> bool" where
  "is_letter c \<longleftrightarrow> c \<in> set lowers \<or> c \<in> set uppers"

definition to_upper :: "char \<Rightarrow> char" where
  "to_upper c = (case map_of (zip lowers uppers) c of Some u \<Rightarrow> u | None \<Rightarrow> c)"

definition to_lower :: "char \<Rightarrow> char" where
  "to_lower c = (case map_of (zip uppers lowers) c of Some l \<Rightarrow> l | None \<Rightarrow> c)"


section \<open>The path translator (utils/path\_converter.py)\<close>

text \<open>
  The functions of \<^verbatim>\<open>os.path\<close> that the translator calls belong to the Python
  library of the host, not to the repository: they are parameters.
\<close>

record ospath =
  isabs :: "string \<Rightarrow> bool"
  join :: "string \<Rightarrow> string \<Rightarrow> string"
  normpath :: "string \<Rightarrow> string"

text \<open>
  The regular expressions. \<^verbatim>\<open>.\<close> matches any character but a line feed, and
  \<^verbatim>\<open>$\<close> matches at the end of the string and before a line feed that ends it.
  \<open>re_rest_eol\<close> is \<^verbatim>\<open>(.*)$\<close> and returns the group.
\<close>

definition re_rest_eol :: "string \<Rightarrow> string option" where
  "re_rest_eol u =
     (if nl \<notin> set u then Some u
      else if last u = nl \<and> nl \<notin> set (butlast u) then Some (butlast u)
      else None)"

text \<open>\<^verbatim>\<open>(/.*)?$\<close>, returning \<^verbatim>\<open>group or ''\<close>\<close>

definition re_opt_slash_rest :: "string \<Rightarrow> string option" where
  "re_opt_slash_rest t =
     (if t = [] \<or> t = [nl] then Some []
      else (case t of
              [] \<Rightarrow> None
            | c # u \<Rightarrow> if c = CHR ''/'' then map_option (Cons c) (re_rest_eol u) else None))"

text \<open>\<^verbatim>\<open>re.match(r'^/([a-zA-Z])(/.*)?$', s)\<close>\<close>

fun re_virtual_drive :: "string \<Rightarrow> (char \<times> string) option" where
  "re_virtual_drive (s # l # t) =
     (if s = CHR ''/'' \<and> is_letter l then map_option (Pair l) (re_opt_slash_rest t) else None)"
| "re_virtual_drive _ = None"

text \<open>\<^verbatim>\<open>re.match(r'^/mnt/([a-zA-Z])(/.*)?$', s)\<close>\<close>

definition re_mnt_drive :: "string \<Rightarrow> (char \<times> string) option" where
  "re_mnt_drive s =
     (if startswith s ''/mnt/''
      then (case drop 5 s of
              [] \<Rightarrow> None
            | l # t \<Rightarrow> if is_letter l then map_option (Pair l) (re_opt_slash_rest t) else None)
      else None)"

text \<open>\<^verbatim>\<open>re.match(r'^([a-zA-Z]):\\(.*)$', s)\<close>\<close>

fun re_native_drive :: "string \<Rightarrow> (char \<times> string) option" where
  "re_native_drive (l # c # b # u) =
     (if is_letter l \<and> c = CHR '':'' \<and> b = bslash then map_option (Pair l) (re_rest_eol u)
      else None)"
| "re_native_drive _ = None"

text \<open>
  \<open>to_windows\<close>. \<open>home\<close> is \<^verbatim>\<open>os.path.expanduser('~')\<close> and \<open>getcwd\<close> is
  \<^verbatim>\<open>os.getcwd()\<close>, both read from the process when the function runs.
\<close>

definition to_windows :: "ospath \<Rightarrow> string \<Rightarrow> string \<Rightarrow> string \<Rightarrow> string" where
  "to_windows P home getcwd linux_path =
     (if linux_path = [] then getcwd
      else
        let p1 = (if startswith linux_path ''~'' then home @ tl linux_path else linux_path);
            p2 = (case re_virtual_drive p1 of
                    Some (drive, rest) \<Rightarrow> to_upper drive # CHR '':'' # rest
                  | None \<Rightarrow> p1);
            p3 = (case re_mnt_drive p2 of
                    Some (drive, rest) \<Rightarrow> to_upper drive # CHR '':'' # rest
                  | None \<Rightarrow> p2);
            windows_path = replace_char CHR ''/'' bslash p3;
            windows_path' = (if \<not> isabs P windows_path then join P getcwd windows_path
                             else windows_path)
        in normpath P windows_path')"

definition to_linux :: "string \<Rightarrow> string \<Rightarrow> string" where
  "to_linux getcwd windows_path =
     (if windows_path = [] then replace_char bslash CHR ''/'' getcwd
      else
        let p = (case re_native_drive windows_path of
                   Some (drive, rest) \<Rightarrow> CHR ''/'' # to_lower drive # CHR ''/'' # rest
                 | None \<Rightarrow> windows_path)
        in replace_char bslash CHR ''/'' p)"


subsection \<open>An instance of the host's \<^verbatim>\<open>os.path\<close>\<close>

text \<open>
  The Windows flavour of \<^verbatim>\<open>os.path\<close> (ntpath), for paths that carry at most a drive
  prefix \<^verbatim>\<open>X:\<close> (no UNC share and no device prefix). It instantiates the parameters
  in the examples: \<open>nt_splitdrive\<close>, \<open>nt_isabs\<close>, \<open>nt_join\<close> for two paths, and
  \<open>nt_normpath\<close>, which turns \<^verbatim>\<open>/\<close> into the separator, drops empty and
  \<^verbatim>\<open>.\<close> components and resolves \<^verbatim>\<open>..\<close> against the component before it.
\<close>

text \<open>\<open>win\<close> writes a native path as a literal: every \<^verbatim>\<open>/\<close> stands for a backslash.\<close>

definition win :: "string \<Rightarrow> string" where
  "win s = replace_char CHR ''/'' bslash s"

definition nt_splitdrive :: "string \<Rightarrow> string \<times> string" where
  "nt_splitdrive p =
     (if 2 \<le> length p \<and> p ! 1 = CHR '':'' then (take 2 p, drop 2 p) else ([], p))"

definition is_sep :: "char \<Rightarrow> bool" where
  "is_sep c \<longleftrightarrow> c = bslash \<or> c = CHR ''/''"

definition nt_isabs :: "string \<Rightarrow> bool" where
  "nt_isabs p = (let r = snd (nt_splitdrive p) in r \<noteq> [] \<and> is_sep (hd r))"

definition nt_join :: "string \<Rightarrow> string \<Rightarrow> string" where
  "nt_join a b =
     (let (rd, rp) = nt_splitdrive a;
          (pd, pp) = nt_splitdrive b;
          rel = (if rp \<noteq> [] \<and> \<not> is_sep (last rp) then rp @ [bslash] @ pp else rp @ pp)
      in if pp \<noteq> [] \<and> is_sep (hd pp) then (if pd \<noteq> [] \<or> rd = [] then pd @ pp else rd @ pp)
         else if pd \<noteq> [] \<and> pd \<noteq> rd
         then (if map to_lower pd \<noteq> map to_lower rd then pd @ pp else pd @ rel)
         else rd @ rel)"

fun norm_comps :: "bool \<Rightarrow> string list \<Rightarrow> string list \<Rightarrow> string list" where
  "norm_comps rooted stack [] = rev stack"
| "norm_comps rooted stack (c # cs) =
     (if c = [] \<or> c = ''.'' then norm_comps rooted stack cs
      else if c = ''..''
      then (case stack of
              [] \<Rightarrow> if rooted then norm_comps rooted [] cs else norm_comps rooted [c] cs
            | t # ts \<Rightarrow> if t \<noteq> ''..'' then norm_comps rooted ts cs
                       else norm_comps rooted (c # stack) cs)
      else norm_comps rooted (c # stack) cs)"

definition nt_normpath :: "string \<Rightarrow> string" where
  "nt_normpath p =
     (let q = replace_char CHR ''/'' bslash p;
          (drv, rest) = nt_splitdrive q;
          rooted = (rest \<noteq> [] \<and> hd rest = bslash);
          prefix = (if rooted then drv @ [bslash] else drv);
          comps = norm_comps rooted [] (split_sep [bslash] (dropWhile (\<lambda>c. c = bslash) rest))
      in if prefix = [] \<and> comps = [] then ''.'' else prefix @ join_with [bslash] comps)"

definition nt_path :: ospath where
  "nt_path = \<lparr> isabs = nt_isabs, join = nt_join, normpath = nt_normpath \<rparr>"

section \<open>Coloured messages (utils/color\_output.py)\<close>

definition Fore_RED :: string where
  "Fore_RED = CHR 0x1B # ''[31m''"

definition Fore_CYAN :: string where
  "Fore_CYAN = CHR 0x1B # ''[36m''"

definition Style_RESET_ALL :: string where
  "Style_RESET_ALL = CHR 0x1B # ''[0m''"

definition ColorOutput_error :: "string \<Rightarrow> string" where
  "ColorOutput_error message =
     Fore_RED @ [CHR 0xE2, CHR 0x9C, CHR 0x97] @ '' '' @ message @ Style_RESET_ALL"

definition ColorOutput_info :: "string \<Rightarrow> string" where
  "ColorOutput_info message =
     Fore_CYAN @ [CHR 0xE2, CHR 0x84, CHR 0xB9] @ '' '' @ message @ Style_RESET_ALL"

section \<open>Session state and collaborators\<close>

datatype pyval = Text string | NoneVal

fun truthy :: "pyval \<Rightarrow> bool" where
  "truthy (Text t) \<longleftrightarrow> t \<noteq> []"
| "truthy NoneVal \<longleftrightarrow> False"

record host =
  files :: "string \<rightharpoonup> string"
  dirs :: "string set"
  environ :: "string \<rightharpoonup> string"
  proc_cwd :: string

definition path_exists :: "host \<Rightarrow> string \<Rightarrow> bool" where
  "path_exists h p \<longleftrightarrow> p \<in> dirs h \<or> files h p \<noteq> None"

definition path_isdir :: "host \<Rightarrow> string \<Rightarrow> bool" where
  "path_isdir h p \<longleftrightarrow> p \<in> dirs h"

record session =
  cwd :: string
  history :: "string list"
  aliases :: "string \<rightharpoonup> string"
  running :: bool
  host :: host

record env =
  ospath :: ospath
  expanduser_home :: "host \<Rightarrow> string"
  shlex_split :: "string \<Rightarrow> string list option"
  handler :: "string \<Rightarrow> string list \<Rightarrow> string \<Rightarrow> host \<Rightarrow> (string + pyval) \<times> host"
  alias_handler :: "string \<Rightarrow> string list \<Rightarrow> string \<Rightarrow> (string \<rightharpoonup> string) \<Rightarrow>
                    (string + pyval) \<times> (string \<rightharpoonup> string)"
  help_text :: "string list \<Rightarrow> string"
  subprocess_run :: "string \<Rightarrow> string \<Rightarrow> host \<Rightarrow> (string + string \<times> string) \<times> host"
  open_error :: "host \<Rightarrow> string \<Rightarrow> bool \<Rightarrow> string option"
  chdir_error :: "host \<Rightarrow> string \<Rightarrow> string option"


section \<open>Collaborators modelled in full\<close>

text \<open>Decimal output, and \<^verbatim>\<open>{i:4d}\<close>: right-aligned in a field of width four.\<close>

fun digits :: "nat \<Rightarrow> string" where
  "digits n = (if n < 10 then [''0123456789'' ! n]
               else digits (n div 10) @ [''0123456789'' ! (n mod 10)])"

definition fmt4d :: "nat \<Rightarrow> string" where
  "fmt4d i = (let d = digits i in replicate (4 - length d) CHR '' '' @ d)"

text \<open>
  \<^verbatim>\<open>int(s)\<close> on ASCII text: whitespace around, an optional sign, then decimal digits
  with single underscores allowed between digits. \<open>None\<close> is \<^verbatim>\<open>ValueError\<close>.
\<close>

definition digit_val :: "char \<Rightarrow> nat option" where
  "digit_val c = map_of (zip ''0123456789'' [0 ..< 10]) c"

fun py_digits :: "bool \<Rightarrow> nat \<Rightarrow> string \<Rightarrow> nat option" where
  "py_digits d acc [] = (if d then Some acc else None)"
| "py_digits d acc (c # cs) =
     (if c = CHR ''_'' then (if d then py_digits False acc cs else None)
      else (case digit_val c of
              Some v \<Rightarrow> py_digits True (10 * acc + v) cs
            | None \<Rightarrow> None))"

definition py_int :: "string \<Rightarrow> int option" where
  "py_int s =
     (case strip s of
        [] \<Rightarrow> None
      | c # cs \<Rightarrow>
          if c = CHR ''-'' then map_option (\<lambda>n. - int n) (py_digits False 0 cs)
          else if c = CHR ''+'' then map_option int (py_digits False 0 cs)
          else map_option int (py_digits False 0 (c # cs)))"

text \<open>\<open>SystemCommands.history(args, cwd, command_history)\<close>\<close>

definition SystemCommands_history :: "string list \<Rightarrow> string \<Rightarrow> string list \<Rightarrow> string" where
  "SystemCommands_history args cwd' command_history =
     (let count = (case args of
                     [] \<Rightarrow> 10
                   | a # _ \<Rightarrow> (case py_int a of Some k \<Rightarrow> k | None \<Rightarrow> 10));
          start = nat (max 0 (int (length command_history) - count));
          shown = drop start command_history;
          output = map (\<lambda>(i, cmd). '' '' @ fmt4d i @ ''  '' @ cmd)
                       (zip [start + 1 ..< start + 1 + length shown] shown)
      in join_with [nl] output)"

text \<open>
  \<open>FileCommands.cd(args, cwd)\<close>; \<open>cd_target\<close> is the path it resolves, normalized.
  The result is \<open>Inl\<close> the message of a raised
  exception, or \<open>Inr (new_cwd, output_message)\<close>; the host comes back with
  \<^verbatim>\<open>os.environ['OLDPWD']\<close> set when the function got that far.
\<close>

definition cd_target :: "env \<Rightarrow> string list \<Rightarrow> string \<Rightarrow> host \<Rightarrow> string" where
  "cd_target E args cwd' h =
     (let new_path =
            (case args of
               [] \<Rightarrow> expanduser_home E h
             | a # _ \<Rightarrow>
                 if a = ''-'' then (case environ h ''OLDPWD'' of Some v \<Rightarrow> v | None \<Rightarrow> cwd')
                 else (let p = to_windows (ospath E) (expanduser_home E h) (proc_cwd h) a
                       in if \<not> isabs (ospath E) p then join (ospath E) cwd' p else p))
      in normpath (ospath E) new_path)"

definition FileCommands_cd ::
  "env \<Rightarrow> string list \<Rightarrow> string \<Rightarrow> host \<Rightarrow> (string + string \<times> string) \<times> host" where
  "FileCommands_cd E args cwd' h =
     (let new_path = cd_target E args cwd' h
      in if \<not> path_exists h new_path
         then (Inr (cwd', ColorOutput_error
                 (''cd: '' @ (case args of [] \<Rightarrow> ''~'' | a # _ \<Rightarrow> a) @
                  '': No such file or directory'')), h)
         else if \<not> path_isdir h new_path
         then (case args of
                 [] \<Rightarrow> (Inl ''list index out of range'', h)
               | a # _ \<Rightarrow> (Inr (cwd', ColorOutput_error (''cd: '' @ a @ '': Not a directory'')), h))
         else (Inr (new_path, []), h\<lparr>environ := (environ h)(''OLDPWD'' \<mapsto> cwd')\<rparr>))"

section \<open>The interpreter (terminal\_core.py)\<close>

type_synonym command = "string list \<Rightarrow> session \<Rightarrow> (string + pyval) \<times> session"

text \<open>\<open>LinuxTerminal._cd\<close>: \<^verbatim>\<open>self.cwd\<close> is assigned before \<^verbatim>\<open>os.chdir\<close> runs.\<close>

definition terminal_cd :: "env \<Rightarrow> command" where
  "terminal_cd E args s =
     (case FileCommands_cd E args (cwd s) (host s) of
        (Inl e, h) \<Rightarrow> (Inl e, s\<lparr>host := h\<rparr>)
      | (Inr (new_cwd, output), h) \<Rightarrow>
          (case chdir_error E h new_cwd of
             Some e \<Rightarrow> (Inl e, s\<lparr>cwd := new_cwd, host := h\<rparr>)
           | None \<Rightarrow> (Inr (Text output), s\<lparr>cwd := new_cwd, host := h\<lparr>proc_cwd := new_cwd\<rparr>\<rparr>)))"

definition terminal_exit :: command where
  "terminal_exit args s = (Inr (Text (ColorOutput_info ''Goodbye!'')), s\<lparr>running := False\<rparr>)"

definition terminal_help :: "env \<Rightarrow> command" where
  "terminal_help E args s = (Inr (Text (help_text E args)), s)"

text \<open>A static method called with \<^verbatim>\<open>(args, self.cwd)\<close>.\<close>

definition collaborator :: "env \<Rightarrow> string \<Rightarrow> command" where
  "collaborator E name args s =
     (case handler E name args (cwd s) (host s) of (r, h) \<Rightarrow> (r, s\<lparr>host := h\<rparr>))"

definition alias_command :: "env \<Rightarrow> string \<Rightarrow> command" where
  "alias_command E name args s =
     (case alias_handler E name args (cwd s) (aliases s) of (r, al) \<Rightarrow> (r, s\<lparr>aliases := al\<rparr>))"

definition collaborator_names :: "string list" where
  "collaborator_names =
     [''ls'', ''pwd'', ''mkdir'', ''rmdir'', ''rm'', ''cp'', ''mv'', ''touch'', ''chmod'', ''ln'',
      ''find'', ''cat'', ''head'', ''tail'', ''grep'', ''wc'', ''sort'', ''uniq'', ''cut'', ''tr'',
      ''sed'', ''awk'', ''diff'', ''clear'', ''echo'', ''date'', ''whoami'', ''hostname'', ''uname'',
      ''uptime'', ''ps'', ''top'', ''kill'', ''df'', ''du'', ''free'', ''env'', ''export'', ''unset'',
      ''which'', ''ping'', ''curl'', ''wget'', ''ifconfig'', ''ip'', ''netstat'', ''ssh'', ''scp'',
      ''nslookup'', ''host'']"

text \<open>The command registry \<^verbatim>\<open>self.commands\<close>.\<close>

definition commands :: "env \<Rightarrow> string \<Rightarrow> command option" where
  "commands E name =
     (if name = ''dir'' then Some (\<lambda>args. collaborator E ''ls'' (''-la'' # args))
      else if name = ''cd'' then Some (terminal_cd E)
      else if name = ''history''
      then Some (\<lambda>args s. (Inr (Text (SystemCommands_history args (cwd s) (history s))), s))
      else if name = ''alias'' \<or> name = ''unalias'' then Some (alias_command E name)
      else if name = ''exit'' \<or> name = ''quit'' then Some terminal_exit
      else if name = ''help'' \<or> name = ''man'' then Some (terminal_help E)
      else if name \<in> set collaborator_names then Some (collaborator E name)
      else None)"

definition parse_command :: "env \<Rightarrow> (string \<rightharpoonup> string) \<Rightarrow> string \<Rightarrow> string \<times> string list" where
  "parse_command E al command_line =
     (if strip command_line = [] then ([], [])
      else
        let parts = split_first (strip command_line);
            command_line' =
              (case al (hd parts) of
                 Some alias_expanded \<Rightarrow>
                   if length parts > 1 then alias_expanded @ '' '' @ parts ! 1
                   else alias_expanded
               | None \<Rightarrow> command_line);
            tokens = (case shlex_split E command_line' of
                        Some ts \<Rightarrow> ts
                      | None \<Rightarrow> split_ws command_line')
        in if tokens = [] then ([], []) else (hd tokens, tl tokens))"

text \<open>\<^verbatim>\<open>s.rstrip()\<close>\<close>

definition rstrip :: "string \<Rightarrow> string" where
  "rstrip s = rev (dropWhile is_space (rev s))"

definition execute_external :: "env \<Rightarrow> session \<Rightarrow> string \<Rightarrow> pyval \<times> session" where
  "execute_external E s command_line =
     (case subprocess_run E command_line (cwd s) (host s) of
        (Inl e, h) \<Rightarrow> (Text (ColorOutput_error (''Command failed: '' @ e)), s\<lparr>host := h\<rparr>)
      | (Inr (out, err), h) \<Rightarrow> (Text (rstrip (out @ err)), s\<lparr>host := h\<rparr>))"

text \<open>
  The \<^verbatim>\<open>try\<close> block of \<open>_handle_redirect\<close>. \<^verbatim>\<open>open\<close> comes first: in mode
  \<^verbatim>\<open>'w'\<close> the file is emptied, in mode \<^verbatim>\<open>'a'\<close> it is created when absent. Then
  \<^verbatim>\<open>output + '\n'\<close> is computed, which raises \<^verbatim>\<open>TypeError\<close> when the command
  returned \<^verbatim>\<open>None\<close>, and is written. File contents are the text that text-mode
  reading gives back.
\<close>

definition redirect_path :: "env \<Rightarrow> session \<Rightarrow> string \<Rightarrow> string" where
  "redirect_path E s filepath =
     (let full_path = to_windows (ospath E) (expanduser_home E (host s)) (proc_cwd (host s)) filepath
      in if \<not> isabs (ospath E) full_path then join (ospath E) (cwd s) full_path else full_path)"

definition redirect_write :: "env \<Rightarrow> session \<Rightarrow> string \<Rightarrow> bool \<Rightarrow> pyval \<Rightarrow> pyval \<times> session" where
  "redirect_write E s filepath append_mode output =
     (let h = host s;
          full_path = redirect_path E s filepath
      in case open_error E h full_path append_mode of
           Some e \<Rightarrow> (Text (ColorOutput_error (''Redirect failed: '' @ e)), s)
         | None \<Rightarrow>
             let old = (if append_mode then (case files h full_path of Some c \<Rightarrow> c | None \<Rightarrow> [])
                        else [])
             in (case output of
                   NoneVal \<Rightarrow>
                     (Text (ColorOutput_error (''Redirect failed: '' @
                        ''unsupported operand type(s) for +: 'NoneType' and 'str' '')),
                      s\<lparr>host := h\<lparr>files := (files h)(full_path \<mapsto> old)\<rparr>\<rparr>)
                 | Text t \<Rightarrow>
                     (Text [], s\<lparr>host := h\<lparr>files := (files h)(full_path \<mapsto> old @ t @ [nl])\<rparr>\<rparr>)))"

text \<open>\<open>LinuxTerminal.__init__\<close>: the session a terminal starts with.\<close>

definition initial_aliases :: "string \<rightharpoonup> string" where
  "initial_aliases =
     map_of [(''ll'', ''ls -la''), (''la'', ''ls -a''), (''l'', ''ls -CF''), (''..'', ''cd ..''),
             (''...'', ''cd ../..''), (''cls'', ''clear''), (''md'', ''mkdir''), (''rd'', ''rmdir''),
             (''del'', ''rm''), (''copy'', ''cp''), (''move'', ''mv''), (''type'', ''cat''),
             (''dir'', ''ls -la'')]"

definition init_session :: "host \<Rightarrow> session" where
  "init_session h =
     \<lparr> cwd = proc_cwd h, history = [], aliases = initial_aliases, running = True, host = h \<rparr>"

subsection \<open>An instance of the collaborators\<close>

text \<open>
  The examples run the interpreter on this instance of its parameters.
  \<open>posix_shlex_split\<close> is \<^verbatim>\<open>shlex.split\<close> in its POSIX mode: words are separated by
  space, TAB, CR and LF; a quote opens a quoted part of the word that its like closes;
  a backslash keeps the next character (inside double quotes only before a backslash or a
  double quote); a quote or an escape left open is the \<^verbatim>\<open>ValueError\<close>.
\<close>

datatype shstate = Between | Word | Quote char | Esc shstate

definition shlex_ws :: "char \<Rightarrow> bool" where
  "shlex_ws c \<longleftrightarrow> c \<in> set [CHR '' '', CHR 0x09, CHR 0x0D, CHR 0x0A]"

definition is_quote :: "char \<Rightarrow> bool" where
  "is_quote c \<longleftrightarrow> c = CHR 0x27 \<or> c = CHR 0x22"

fun shlex_run :: "shstate \<Rightarrow> string \<Rightarrow> string \<Rightarrow> string list option" where
  "shlex_run Between tok [] = Some []"
| "shlex_run Word tok [] = Some [rev tok]"
| "shlex_run (Quote q) tok [] = None"
| "shlex_run (Esc r) tok [] = None"
| "shlex_run Between tok (c # cs) =
     (if shlex_ws c then shlex_run Between [] cs
      else if c = bslash then shlex_run (Esc Word) [] cs
      else if is_quote c then shlex_run (Quote c) [] cs
      else shlex_run Word [c] cs)"
| "shlex_run Word tok (c # cs) =
     (if shlex_ws c then map_option (Cons (rev tok)) (shlex_run Between [] cs)
      else if is_quote c then shlex_run (Quote c) tok cs
      else if c = bslash then shlex_run (Esc Word) tok cs
      else shlex_run Word (c # tok) cs)"
| "shlex_run (Quote q) tok (c # cs) =
     (if c = q then shlex_run Word tok cs
      else if c = bslash \<and> q = CHR 0x22 then shlex_run (Esc (Quote q)) tok cs
      else shlex_run (Quote q) (c # tok) cs)"
| "shlex_run (Esc (Quote q)) tok (c # cs) =
     (if c \<noteq> bslash \<and> c \<noteq> q then shlex_run (Quote q) (c # bslash # tok) cs
      else shlex_run (Quote q) (c # tok) cs)"
| "shlex_run (Esc r) tok (c # cs) = shlex_run r (c # tok) cs"

definition posix_shlex_split :: "string \<Rightarrow> string list option" where
  "posix_shlex_split s = shlex_run Between [] s"

text \<open>
  The handlers of the instance: \<open>echo\<close> as \<open>SystemCommands.echo\<close> is on arguments
  without escape sequences and variables, \<open>pwd\<close>, \<open>export\<close> with assignments (an
  empty variable name is refused by the host and raises), and \<open>unset\<close>, which returns
  \<^verbatim>\<open>None\<close>. Every other handler returns the empty text.
\<close>

fun demo_export :: "string list \<Rightarrow> host \<Rightarrow> (string + pyval) \<times> host" where
  "demo_export [] h = (Inr (Text []), h)"
| "demo_export (a # as) h =
     (if CHR ''='' \<in> set a
      then (let key = takeWhile (\<lambda>c. c \<noteq> CHR ''='') a;
                val = tl (dropWhile (\<lambda>c. c \<noteq> CHR ''='') a)
            in if key = [] then (Inl ''illegal environment variable name'', h)
               else demo_export as (h\<lparr>environ := (environ h)(key \<mapsto> val)\<rparr>))
      else demo_export as h)"

fun demo_unset :: "string list \<Rightarrow> host \<Rightarrow> (string + pyval) \<times> host" where
  "demo_unset [] h = (Inr NoneVal, h)"
| "demo_unset (a # as) h = demo_unset as (h\<lparr>environ := (environ h)(a := None)\<rparr>)"

definition demo_handler ::
  "string \<Rightarrow> string list \<Rightarrow> string \<Rightarrow> host \<Rightarrow> (string + pyval) \<times> host" where
  "demo_handler name args cwd' h =
     (if name = ''echo'' then (Inr (Text (join_with '' '' (filter (\<lambda>a. a \<noteq> ''-n'') args))), h)
      else if name = ''pwd'' then (Inr (Text (to_linux (proc_cwd h) cwd')), h)
      else if name = ''export'' then demo_export args h
      else if name = ''unset'' then demo_unset args h
      else (Inr (Text []), h))"

text \<open>\<open>SystemCommands.alias\<close> and \<open>unalias\<close>, but for the listing that \<open>alias\<close> prints
  when it has no argument.\<close>

fun demo_alias :: "string list \<Rightarrow> (string \<rightharpoonup> string) \<Rightarrow> (string + pyval) \<times> (string \<rightharpoonup> string)" where
  "demo_alias [] al = (Inr (Text []), al)"
| "demo_alias (a # as) al =
     (if CHR ''='' \<in> set a
      then (let name = takeWhile (\<lambda>c. c \<noteq> CHR ''='') a;
                val = tl (dropWhile (\<lambda>c. c \<noteq> CHR ''='') a);
                val' = rev (dropWhile is_quote (rev (dropWhile is_quote val)))
            in demo_alias as (al(name \<mapsto> val')))
      else (case al a of
              Some v \<Rightarrow> (Inr (Text (''alias '' @ a @ ''='' @ [CHR 0x27] @ v @ [CHR 0x27])), al)
            | None \<Rightarrow> demo_alias as al))"

fun demo_unalias :: "string list \<Rightarrow> (string \<rightharpoonup> string) \<Rightarrow> (string + pyval) \<times> (string \<rightharpoonup> string)" where
  "demo_unalias [] al = (Inr (Text []), al)"
| "demo_unalias (a # as) al = demo_unalias as (al(a := None))"

definition demo_env :: env where
  "demo_env =
     \<lparr> ospath = nt_path,
       expanduser_home = (\<lambda>h. case environ h ''USERPROFILE'' of Some v \<Rightarrow> v | None \<Rightarrow> ''~''),
       shlex_split = posix_shlex_split,
       handler = demo_handler,
       alias_handler = (\<lambda>name args cwd' al.
                          if name = ''alias'' then demo_alias args al else demo_unalias args al),
       help_text = (\<lambda>args. ''help''),
       subprocess_run = (\<lambda>line cwd' h. (Inr ([], ''command not found''), h)),
       open_error = (\<lambda>h p append_mode.
                       if p \<in> dirs h then Some ''[Errno 13] Permission denied'' else None),
       chdir_error = (\<lambda>h p. None) \<rparr>"

definition demo_host :: host where
  "demo_host =
     \<lparr> files = Map.empty,
       dirs = {win ''C:/'', win ''C:/work'', win ''C:/Users'', win ''C:/Users/me''},
       environ = [''USERPROFILE'' \<mapsto> win ''C:/Users/me''],
       proc_cwd = win ''C:/work'' \<rparr>"

definition demo_session :: session where
  "demo_session = init_session demo_host"


text \<open>A host whose home directory setting names a regular file.\<close>

definition home_file_host :: host where
  "home_file_host =
     demo_host\<lparr>files := [win ''C:/work/home.txt'' \<mapsto> ''x''],
               environ := [''USERPROFILE'' \<mapsto> win ''C:/work/home.txt'']\<rparr>"


text \<open>
  The interpreter proper: \<open>execute\<close>, \<open>_handle_pipe\<close> (with its \<^verbatim>\<open>for\<close> loop as
  \<open>pipe_loop\<close>) and \<open>_handle_redirect\<close> call each other. Every call passes on a line
  with fewer \<^verbatim>\<open>|\<close> and \<^verbatim>\<open>>\<close> characters, counted by \<open>specials\<close>, which is why
  the recursion ends.
\<close>

definition specials :: "string \<Rightarrow> nat" where
  "specials l = length (filter (\<lambda>c. c = CHR ''|'' \<or> c = CHR ''>'') l)"

function execute :: "env \<Rightarrow> session \<Rightarrow> string \<Rightarrow> pyval \<times> session"
  and handle_pipe :: "env \<Rightarrow> session \<Rightarrow> string \<Rightarrow> pyval \<times> session"
  and pipe_loop :: "env \<Rightarrow> session \<Rightarrow> pyval \<Rightarrow> string list \<Rightarrow> pyval \<times> session"
  and handle_redirect :: "env \<Rightarrow> session \<Rightarrow> string \<Rightarrow> pyval \<times> session"
where
  "execute E s command_line =
     (let line = strip command_line
      in if line = [] \<or> startswith line ''#'' then (Text [], s)
         else
           let s1 = s\<lparr>history := history s @ [line]\<rparr>
           in if contains ''|'' line then handle_pipe E s1 line
              else if contains ''>'' line \<or> contains ''>>'' line then handle_redirect E s1 line
              else (case parse_command E (aliases s1) line of
                      (cmd, args) \<Rightarrow>
                        (case commands E cmd of
                           Some f \<Rightarrow>
                             (case f args s1 of
                                (Inl e, s2) \<Rightarrow> (Text (ColorOutput_error (cmd @ '': '' @ e)), s2)
                              | (Inr v, s2) \<Rightarrow> (v, s2))
                         | None \<Rightarrow> execute_external E s1 line)))"
| "handle_pipe E s command_line = pipe_loop E s (Text []) (split_sep ''|'' command_line)"
| "pipe_loop E s output [] = (output, s)"
| "pipe_loop E s output (c # cs) =
     (let cmd = strip c
      in case (if truthy output then execute E s cmd else execute E s cmd) of
           (output', s') \<Rightarrow> pipe_loop E s' output' cs)"
| "handle_redirect E s command_line =
     (let append_mode = contains ''>>'' command_line;
          parts = (if append_mode then split_sep ''>>'' command_line
                   else split_sep ''>'' command_line)
      in if length parts \<noteq> 2 then (Text (ColorOutput_error ''Invalid redirection syntax''), s)
         else
           let cmd = strip (parts ! 0);
               filepath = strip (parts ! 1)
           in case execute E s cmd of
                (output, s1) \<Rightarrow> redirect_write E s1 filepath append_mode output)"
  by pat_completeness auto



lemma specials_Nil: "specials [] = 0"
  by (simp add: specials_def)

lemma specials_Cons: "specials (c # cs) = (if c = CHR ''|'' \<or> c = CHR ''>'' then 1 else 0) + specials cs"
  by (simp add: specials_def)

lemma specials_append: "specials (a @ b) = specials a + specials b"
  by (simp add: specials_def)

lemma specials_rev: "specials (rev a) = specials a"
  by (simp add: specials_def flip: rev_filter)

lemma specials_dropWhile: "specials (dropWhile P l) \<le> specials l"
proof -
  have "specials l = specials (takeWhile P l) + specials (dropWhile P l)"
    by (metis specials_append takeWhile_dropWhile_id)
  then show ?thesis by simp
qed

lemma specials_strip: "specials (strip l) \<le> specials l"
  unfolding strip_def specials_rev
  by (metis specials_dropWhile specials_rev order_trans)

lemma split_from_nonempty: "split_from sep acc l \<noteq> []"
  by (induction sep acc l rule: split_from.induct) auto

lemma startswith_split: "startswith l sep \<Longrightarrow> l = sep @ drop (length sep) l"
  by (metis append_take_drop_id startswith_def)

lemma specials_split_from:
  "sum_list (map specials (split_from sep acc l)) + (length (split_from sep acc l) - 1) * specials sep
     = specials acc + specials l"
proof (induction sep acc l rule: split_from.induct)
  case (1 sep acc)
  then show ?case by (simp add: specials_rev specials_Nil)
next
  case (2 sep acc c cs)
  show ?case
  proof (cases "sep \<noteq> [] \<and> startswith (c # cs) sep")
    case True
    let ?rest = "drop (length sep) (c # cs)"
    let ?ps = "split_from sep [] ?rest"
    have ih: "sum_list (map specials ?ps) + (length ?ps - 1) * specials sep = specials ?rest"
      using 2(1)[OF True] by (simp add: specials_Nil)
    have len: "length ?ps \<ge> 1"
      using split_from_nonempty[of sep "[]" ?rest] by (cases ?ps) auto
    have whole: "specials (c # cs) = specials sep + specials ?rest"
      using startswith_split[of "c # cs" sep] True by (metis specials_append)
    have "split_from sep acc (c # cs) = rev acc # ?ps"
      using True by simp
    then have "sum_list (map specials (split_from sep acc (c # cs)))
                + (length (split_from sep acc (c # cs)) - 1) * specials sep
             = specials acc + sum_list (map specials ?ps) + length ?ps * specials sep"
      by (simp add: specials_rev)
    also have "\<dots> = specials acc + (sum_list (map specials ?ps) + (length ?ps - 1) * specials sep)
                 + specials sep"
      using len by (cases "length ?ps") auto
    finally show ?thesis
      using ih whole by simp
  next
    case False
    then have "split_from sep acc (c # cs) = split_from sep (c # acc) cs"
      by auto
    then show ?thesis
      using 2(2)[OF False] by (simp add: specials_Cons)
  qed
qed

lemma contains_split_from:
  "sep \<noteq> [] \<Longrightarrow> contains sep l \<Longrightarrow> 2 \<le> length (split_from sep acc l)"
proof (induction sep acc l rule: split_from.induct)
  case (1 sep acc)
  then show ?case by simp
next
  case (2 sep acc c cs)
  show ?case
  proof (cases "startswith (c # cs) sep")
    case True
    then show ?thesis
      using 2(3) split_from_nonempty[of sep "[]" "drop (length sep) (c # cs)"]
      by (cases "split_from sep [] (drop (length sep) (c # cs))") auto
  next
    case False
    then show ?thesis
      using 2 by auto
  qed
qed

lemma pipe_measure:
  assumes "contains ''|'' l"
  shows "sum_list (map (\<lambda>c. 10 * specials c + 6) (split_sep ''|'' l)) \<le> 10 * specials l + 2"
proof -
  let ?ps = "split_sep ''|'' l"
  have n: "2 \<le> length ?ps"
    using contains_split_from[of "''|''" l "[]"] assms by (simp add: split_sep_def)
  have e: "sum_list (map specials ?ps) + (length ?ps - 1) = specials l"
    using specials_split_from[of "''|''" "[]" l] by (simp add: split_sep_def specials_Nil specials_Cons)
  have t: "sum_list (map (\<lambda>c. 10 * specials c + 6) xs)
                 = 10 * sum_list (map specials xs) + 6 * length xs" for xs
    by (induction xs) auto
  show ?thesis
    using n e t[of ?ps] by linarith
qed

lemma redirect_measure:
  assumes "length (split_sep sep l) = 2" and "0 < specials sep"
  shows "specials (strip (split_sep sep l ! 0)) < specials l"
proof -
  obtain a b where ps: "split_sep sep l = [a, b]"
    using assms(1) by (cases "split_sep sep l"; cases "tl (split_sep sep l)") auto
  have "specials a + specials b + specials sep = specials l"
    using specials_split_from[of sep "[]" l] ps by (simp add: split_sep_def specials_Nil)
  then show ?thesis
    using assms(2) specials_strip[of a] ps by simp
qed

termination execute
proof (relation "measure (\<lambda>x. case x of
          Inl (Inl (E, s, l)) \<Rightarrow> 10 * specials l + 5
        | Inl (Inr (E, s, l)) \<Rightarrow> sum_list (map (\<lambda>c. 10 * specials c + 6) (split_sep ''|'' l)) + 1
        | Inr (Inl (E, s, out, cs)) \<Rightarrow> sum_list (map (\<lambda>c. 10 * specials c + 6) cs)
        | Inr (Inr (E, s, l)) \<Rightarrow> 10 * specials l + 4)", goal_cases)
  case 1
  show ?case by simp
next
  case (2 E s command_line x xa)
  then show ?case
    using pipe_measure[of "strip command_line"] specials_strip[of command_line] by simp
next
  case (3 E s command_line x xa)
  then show ?case
    using specials_strip[of command_line] by simp
next
  case 4
  show ?case by simp
next
  case (5 E s out c cs x)
  then show ?case using specials_strip[of c] by simp
next
  case (6 E s out c cs x)
  then show ?case using specials_strip[of c] by simp
next
  case 7
  then show ?case by simp
next
  case (8 E s command_line x xa xb xc)
  have "specials (strip (xa ! 0)) < specials command_line"
  proof (cases "contains ''>>'' command_line")
    case True
    then show ?thesis
      using 8 redirect_measure[of "''>>''" command_line] by (simp add: specials_Cons)
  next
    case False
    then show ?thesis
      using 8 redirect_measure[of "''>''" command_line] by (simp add: specials_Cons)
  qed
  then show ?case using 8 by simp
qed

declare execute.simps [simp del] handle_pipe.simps [simp del] handle_redirect.simps [simp del]


section \<open>Properties of the path translator\<close>

lemma letter_table:
  "\<forall>x \<in> set (lowers @ uppers).
     is_letter (to_lower x) \<and> is_letter (to_upper x) \<and>
     to_upper (to_lower x) = to_upper x \<and> to_lower (to_upper x) = to_lower x \<and>
     x \<noteq> CHR ''/'' \<and> to_upper x \<noteq> CHR ''/'' \<and> to_lower x \<noteq> CHR ''/'' \<and>
     to_upper x \<noteq> bslash \<and> to_lower x \<noteq> bslash"
  by code_simp

lemma letter_facts:
  assumes "is_letter x"
  shows "is_letter (to_lower x) \<and> is_letter (to_upper x) \<and>
     to_upper (to_lower x) = to_upper x \<and> to_lower (to_upper x) = to_lower x \<and>
     x \<noteq> CHR ''/'' \<and> to_upper x \<noteq> CHR ''/'' \<and> to_lower x \<noteq> CHR ''/'' \<and>
     to_upper x \<noteq> bslash \<and> to_lower x \<noteq> bslash"
proof -
  from assms have "x \<in> set (lowers @ uppers)"
    by (simp only: is_letter_def set_append Un_iff)
  then show ?thesis
    by (rule letter_table[THEN bspec])
qed

lemma nl_replace_char: "b \<noteq> nl \<Longrightarrow> nl \<notin> set s \<Longrightarrow> nl \<notin> set (replace_char a b s)"
  by (auto simp: replace_char_def)

lemma replace_char_twice:
  "replace_char CHR ''/'' bslash (replace_char bslash CHR ''/'' s) = replace_char CHR ''/'' bslash s"
  by (simp add: replace_char_def bslash_def)

lemma replace_char_twice':
  "replace_char bslash CHR ''/'' (replace_char CHR ''/'' bslash s) = replace_char bslash CHR ''/'' s"
  by (simp add: replace_char_def bslash_def)

lemma re_rest_eol_no_nl: "nl \<notin> set u \<Longrightarrow> re_rest_eol u = Some u"
  by (simp add: re_rest_eol_def)

lemma to_linux_drive:
  assumes "is_letter x" "nl \<notin> set r"
  shows "to_linux wd (x # CHR '':'' # bslash # r) =
         CHR ''/'' # to_lower x # CHR ''/'' # replace_char bslash CHR ''/'' r"
  using assms letter_facts[of x]
  by (simp add: to_linux_def re_rest_eol_no_nl replace_char_def bslash_def)

lemma to_windows_drive:
  assumes "is_letter x" "nl \<notin> set r"
    and "isabs P (to_upper x # CHR '':'' # bslash # replace_char CHR ''/'' bslash r)"
  shows "to_windows P home wd (CHR ''/'' # x # CHR ''/'' # r) =
         normpath P (to_upper x # CHR '':'' # bslash # replace_char CHR ''/'' bslash r)"
proof -
  have m1: "re_virtual_drive (CHR ''/'' # x # CHR ''/'' # r) = Some (x, CHR ''/'' # r)"
    using assms by (simp add: re_opt_slash_rest_def re_rest_eol_no_nl nl_def)
  have m2: "re_mnt_drive (to_upper x # CHR '':'' # CHR ''/'' # r) = None"
    using letter_facts[OF assms(1)] by (simp add: re_mnt_drive_def startswith_def)
  have rp: "replace_char CHR ''/'' bslash (to_upper x # CHR '':'' # CHR ''/'' # r) =
            to_upper x # CHR '':'' # bslash # replace_char CHR ''/'' bslash r"
    using letter_facts[OF assms(1)] by (simp add: replace_char_def)
  show ?thesis
    using assms(3)
    by (simp add: to_windows_def startswith_def m1 m2 rp Let_def del: re_virtual_drive.simps)
qed

lemma replace_char_idem: "replace_char a b (replace_char a b s) = replace_char a b s"
  by (induction s) (auto simp: replace_char_def)

lemma nt_normpath_seps: "nt_normpath (replace_char CHR ''/'' bslash s) = nt_normpath s"
  unfolding nt_normpath_def replace_char_idem ..

lemma nt_isabs_drive: "nt_isabs (d # CHR '':'' # bslash # s)"
  by (simp add: nt_isabs_def nt_splitdrive_def is_sep_def)

lemma ev1: "nt_normpath (win ''C:/Users/../tmp'') = win ''C:/tmp''"
  by (simp add: nt_normpath_def win_def replace_char_def nt_splitdrive_def split_sep_def startswith_def bslash_def)

text \<open>
  C2 (as amended). Let \<open>x\<close> be an ASCII letter and let the paths hold no line feed.
  For the native path \<open>x:\r\<close>, \<open>to_windows (to_linux p)\<close> is the normalized form of
  \<open>p\<close> with its drive letter in upper case. For the virtual path \<open>/x/v\<close>,
  \<open>to_linux (to_windows v)\<close> is \<open>/\<close>, the drive letter in lower case, \<open>/\<close>, and
  the normalized remainder \<open>n\<close> with \<open>/\<close> for every separator. The host's
  \<open>os.path\<close> is assumed to treat \<open>X:\...\<close> as absolute, to normalize \<open>/\<close> as it
  does the separator, and to leave the drive root of \<open>X:\...\<close> in place.
\<close>

theorem path_roundtrip:
  assumes letter: "is_letter x" and r: "nl \<notin> set r" and v: "nl \<notin> set v"
    and abs: "\<forall>s. isabs P (to_upper x # CHR '':'' # bslash # s)"
    and seps: "\<forall>s. normpath P (replace_char CHR ''/'' bslash s) = normpath P s"
    and shape: "normpath P (to_upper x # CHR '':'' # bslash # replace_char CHR ''/'' bslash v) =
                to_upper x # CHR '':'' # bslash # n"
    and n: "nl \<notin> set n"
  shows "to_windows P home wd (to_linux wd (x # CHR '':'' # bslash # r)) =
           normpath P (to_upper x # CHR '':'' # bslash # r) \<and>
         to_linux wd (to_windows P home wd (CHR ''/'' # x # CHR ''/'' # v)) =
           CHR ''/'' # to_lower x # CHR ''/'' # replace_char bslash CHR ''/'' n"
proof
  have r': "nl \<notin> set (replace_char bslash CHR ''/'' r)"
    using r by (auto simp: replace_char_def nl_def)
  have "to_windows P home wd (to_linux wd (x # CHR '':'' # bslash # r)) =
        normpath P (to_upper x # CHR '':'' # bslash # replace_char CHR ''/'' bslash r)"
    using letter_facts[OF letter] abs
    by (simp add: to_linux_drive[OF letter r] to_windows_drive[OF _ r'] replace_char_twice)
  also have "\<dots> = normpath P (replace_char CHR ''/'' bslash (to_upper x # CHR '':'' # bslash # r))"
    using letter_facts[OF letter] by (simp add: replace_char_def bslash_def)
  also have "\<dots> = normpath P (to_upper x # CHR '':'' # bslash # r)"
    using seps by blast
  finally show "to_windows P home wd (to_linux wd (x # CHR '':'' # bslash # r)) =
           normpath P (to_upper x # CHR '':'' # bslash # r)" .
next
  have "to_windows P home wd (CHR ''/'' # x # CHR ''/'' # v) = to_upper x # CHR '':'' # bslash # n"
    using abs by (simp add: to_windows_drive[OF letter v] shape)
  then show "to_linux wd (to_windows P home wd (CHR ''/'' # x # CHR ''/'' # v)) =
           CHR ''/'' # to_lower x # CHR ''/'' # replace_char bslash CHR ''/'' n"
    using letter_facts[OF letter] by (simp add: to_linux_drive[OF _ n])
qed

theorem path_roundtrip_witness:
  "to_windows nt_path (win ''C:/Users/me'') (win ''D:/work'')
       (to_linux (win ''D:/work'') (win ''c:/Users/../tmp'')) = win ''C:/tmp'' \<and>
   to_linux (win ''D:/work'')
       (to_windows nt_path (win ''C:/Users/me'') (win ''D:/work'') ''/c/Users/../tmp'') = ''/c/tmp''"
  using path_roundtrip [of "CHR ''c''" "win ''Users/../tmp''" "''Users/../tmp''" nt_path "win ''tmp''"
      "win ''C:/Users/me''" "win ''D:/work''"] ev1 nt_normpath_seps nt_isabs_drive
  by (simp add: nt_path_def win_def replace_char_def bslash_def nl_def is_letter_def lowers_def uppers_def
      to_upper_def to_lower_def)

text \<open>
  C2 as stated fails on the letter case: the native path \<open>c:\tmp\<close> comes back as
  \<open>C:\tmp\<close>, while normalization keeps its drive letter in lower case.
\<close>

theorem path_roundtrip_counterexample:
  "to_windows nt_path (win ''C:/Users/me'') (win ''D:/work'') (to_linux (win ''D:/work'') (win ''c:/tmp''))
     \<noteq> normpath nt_path (win ''c:/tmp'')"
  by (simp add: to_windows_def to_linux_def nt_path_def nt_normpath_def win_def replace_char_def nt_splitdrive_def split_sep_def startswith_def bslash_def nt_isabs_def is_sep_def
 re_rest_eol_def re_opt_slash_rest_def re_mnt_drive_def nl_def is_letter_def lowers_def uppers_def to_upper_def to_lower_def)

section \<open>Alias expansion\<close>













section \<open>The history listing\<close>






section \<open>Changing directory\<close>

text \<open>
  What \<open>FileCommands.cd\<close> does when it has an argument, or when the home directory is
  missing or a directory: a path that is missing or not a directory leaves the working
  directory and the host as they were and gives a message that is not empty; an existing
  directory becomes the working directory, normalized, and \<open>OLDPWD\<close> records the prior
  one, which is what \<open>cd -\<close> then resolves (normalized).
\<close>

lemma cd_rejects:
  assumes "\<not> (path_exists h (cd_target E args wd h) \<and> path_isdir h (cd_target E args wd h))"
    and "args \<noteq> [] \<or> \<not> path_exists h (cd_target E args wd h)"
  shows "\<exists>msg. FileCommands_cd E args wd h = (Inr (wd, msg), h) \<and> msg \<noteq> []"
  using assms
  by (auto simp: FileCommands_cd_def Let_def ColorOutput_error_def Fore_RED_def split: list.splits)

lemma cd_accepts:
  assumes "path_exists h (cd_target E args wd h)" "path_isdir h (cd_target E args wd h)"
  shows "FileCommands_cd E args wd h =
           (Inr (cd_target E args wd h, []), h\<lparr>environ := (environ h)(''OLDPWD'' \<mapsto> wd)\<rparr>)"
  using assms by (simp add: FileCommands_cd_def Let_def)

lemma cd_dash_after_cd:
  "cd_target E [''-''] wd' (h\<lparr>environ := (environ h)(''OLDPWD'' \<mapsto> wd)\<rparr>) = normpath (ospath E) wd"
  by (simp add: cd_target_def)


text \<open>
  C1. With no argument and a home path that exists but is not a directory, the branch
  for "Not a directory" evaluates \<open>args[0]\<close> on the empty list: \<open>FileCommands.cd\<close>
  raises \<open>IndexError\<close> where the claim has it return the unchanged working directory
  with a message. (The branch before it guards the same expression with
  \<open>args[0] if args else '~'\<close>.) The interpreter catches the exception, so the session
  keeps its working directory and prints \<open>cd: list index out of range\<close>.
\<close>

theorem cd_home_not_directory:
  "fst (FileCommands_cd demo_env [] (win ''C:/work'') home_file_host) = Inl ''list index out of range'' \<and>
   fst (execute demo_env (init_session home_file_host) ''cd'') =
     Text (ColorOutput_error ''cd: list index out of range'') \<and>
   cwd (snd (execute demo_env (init_session home_file_host) ''cd'')) = win ''C:/work''"
  by code_simp

section \<open>Dispatch of an ordinary command\<close>





lemma commands_cases:
  assumes "commands E cmd = Some f"
  shows "f = (\<lambda>args. collaborator E ''ls'' (''-la'' # args)) \<or> f = terminal_cd E \<or>
         f = (\<lambda>args s. (Inr (Text (SystemCommands_history args (cwd s) (history s))), s)) \<or>
         f = alias_command E cmd \<or> f = terminal_exit \<or> f = terminal_help E \<or>
         f = collaborator E cmd"
  using assms unfolding commands_def by (auto split: if_splits)

lemma collaborator_keeps:
  "collaborator E n args s = (r, s') \<Longrightarrow> running s' = running s \<and> history s' = history s"
  by (auto simp: collaborator_def split: prod.splits)

lemma alias_command_keeps:
  "alias_command E n args s = (r, s') \<Longrightarrow> running s' = running s \<and> history s' = history s"
  by (auto simp: alias_command_def split: prod.splits)

lemma terminal_cd_keeps:
  "terminal_cd E args s = (r, s') \<Longrightarrow> running s' = running s \<and> history s' = history s"
  unfolding terminal_cd_def
  by (cases "FileCommands_cd E args (cwd s) (host s)")
     (auto split: sum.splits prod.splits option.splits)


lemma commands_history:
  assumes "commands E cmd = Some f" "f args s = (r, s')"
  shows "history s' = history s"
  using commands_cases[OF assms(1)] assms(2)
    collaborator_keeps[of E "''ls''" "''-la'' # args" s r s']
    collaborator_keeps[of E cmd args s r s']
    alias_command_keeps[of E cmd args s r s']
    terminal_cd_keeps[of E args s r s']
  by (elim disjE) (auto simp: terminal_exit_def terminal_help_def)





section \<open>Redirection\<close>
















lemma execute_redirect:
  assumes "\<not> startswith (strip l) ''#''" "\<not> contains ''|'' (strip l)"
    and "contains ''>'' (strip l) \<or> contains ''>>'' (strip l)"
  shows "execute E s l = handle_redirect E (s\<lparr>history := history s @ [strip l]\<rparr>) (strip l)"
proof -
  have "strip l \<noteq> []"
    using assms(3) by auto
  then show ?thesis
    using assms by (subst execute.simps) (simp add: Let_def)
qed

text \<open>
  C8 (as amended). On a line without \<open>|\<close> that holds \<open>>\<close>, when splitting at the
  operator found (\<open>>>\<close> if the line holds it, else \<open>>\<close>) does not give exactly two
  parts, \<open>execute\<close> returns the syntax error; the session only gains the history entry
  of the line: no command ran and no file was written.
\<close>

theorem redirect_syntax_error:
  assumes "\<not> startswith (strip l) ''#''" "\<not> contains ''|'' (strip l)"
    and "contains ''>'' (strip l) \<or> contains ''>>'' (strip l)"
    and "length (split_sep (if contains ''>>'' (strip l) then ''>>'' else ''>'') (strip l)) \<noteq> 2"
  shows "execute E s l =
           (Text (ColorOutput_error ''Invalid redirection syntax''),
            s\<lparr>history := history s @ [strip l]\<rparr>)"
  using assms(4) unfolding execute_redirect[OF assms(1-3)]
  by (subst handle_redirect.simps) (auto simp: Let_def)

theorem redirect_syntax_error_witness:
  "execute demo_env demo_session ''echo a > b > c'' =
     (Text (ColorOutput_error ''Invalid redirection syntax''),
      demo_session\<lparr>history := history demo_session @ [strip ''echo a > b > c'']\<rparr>)"
proof -
  have h1: "\<not> startswith (strip ''echo a > b > c'') ''#''" by code_simp
  have h2: "\<not> contains ''|'' (strip ''echo a > b > c'')" by code_simp
  have h3: "contains ''>'' (strip ''echo a > b > c'') \<or> contains ''>>'' (strip ''echo a > b > c'')"
    by code_simp
  have h4: "length (split_sep (if contains ''>>'' (strip ''echo a > b > c'') then ''>>'' else ''>'')
              (strip ''echo a > b > c'')) \<noteq> 2"
    by code_simp
  show ?thesis
    by (rule redirect_syntax_error[OF h1 h2 h3 h4])
qed

text \<open>
  C8 as stated also rejects an empty part. The line \<open>> f\<close> splits into an empty left
  part and \<open>f\<close>: there is no syntax error, and the file \<open>f\<close> is written with one
  line feed.
\<close>

theorem redirect_empty_command_counterexample:
  "fst (execute demo_env demo_session ''> f'') = Text [] \<and>
   files (host (snd (execute demo_env demo_session ''> f''))) (win ''C:/work/f'') = Some [nl]"
  by code_simp









section \<open>Pipes\<close>





end
